theory Spec2Isabelle
  imports Main "HOL-Library.Word"
begin

section \<open>JavaScript strings and values\<close>

text \<open>
  A JavaScript string is a sequence of 16-bit code units; \<open>length\<close> counts code units,
  as \<^verbatim>\<open>text.length\<close> does. \<open>str\<close> embeds an ASCII literal of the source.
\<close>

type_synonym jsstring = "16 word list"

definition str :: "string \<Rightarrow> jsstring" where
  "str s = map (\<lambda>c. of_nat (of_char c)) s"

text \<open>
  \<^verbatim>\<open>s.includes(sub)\<close>: \<open>sub\<close> occurs in \<open>s\<close> as a contiguous run of code units
  (stated for any element type, used at code units).
\<close>

fun js_includes :: "'a list \<Rightarrow> 'a list \<Rightarrow> bool" where
  "js_includes [] sub = (sub = [])"
| "js_includes (c # s) sub = (take (length sub) (c # s) = sub \<or> js_includes s sub)"

text \<open>
  \<^verbatim>\<open>s.trim()\<close> removes WhiteSpace and LineTerminator code points from both ends:
  TAB, LF, VT, FF, CR, SPACE, NBSP, U+1680, U+2000..U+200A, U+2028, U+2029, U+202F,
  U+205F, U+3000 and U+FEFF. All of them are single code units.
\<close>

definition isWhiteSpace :: "16 word \<Rightarrow> bool" where
  "isWhiteSpace u \<longleftrightarrow>
     u \<in> set [0x9, 0xA, 0xB, 0xC, 0xD, 0x20, 0xA0, 0x1680, 0x2028, 0x2029, 0x202F,
              0x205F, 0x3000, 0xFEFF]
     \<or> (0x2000 \<le> u \<and> u \<le> 0x200A)"

definition js_trim :: "jsstring \<Rightarrow> jsstring" where
  "js_trim s = rev (dropWhile isWhiteSpace (rev (dropWhile isWhiteSpace s)))"

text \<open>Decimal rendering of a non-negative integer, as a template literal renders a length.\<close>

fun decimal :: "nat \<Rightarrow> jsstring" where
  "decimal n =
     (if n < 10 then [of_nat (48 + n)]
      else decimal (n div 10) @ [of_nat (48 + n mod 10)])"

declare decimal.simps [simp del]

section \<open>Parsed JSON and other values\<close>

text \<open>
  What \<^verbatim>\<open>JSON.parse\<close> yields. An object is the list of its own properties, each name
  once. \<open>JNum\<close> holds a number that is an integer of magnitude below \<open>2^53\<close>; numbers with
  a fraction or a larger magnitude are doubles and are not represented (they take the
  same branches as integers: truthy unless zero, no \<open>length\<close>, no \<open>substring\<close>).
\<close>

datatype json =
    JNull
  | JBool bool
  | JNum int
  | JStr jsstring
  | JArr "json list"
  | JObj "(jsstring \<times> json) list"

fun truthy :: "json \<Rightarrow> bool" where
  "truthy JNull = False"
| "truthy (JBool b) = b"
| "truthy (JNum i) = (i \<noteq> 0)"
| "truthy (JStr s) = (s \<noteq> [])"
| "truthy (JArr xs) = True"
| "truthy (JObj kv) = True"

text \<open>\<^verbatim>\<open>!x\<close> for a property read: \<open>None\<close> is \<^verbatim>\<open>undefined\<close>.\<close>

definition js_not :: "json option \<Rightarrow> bool" where
  "js_not x = (case x of None \<Rightarrow> True | Some v \<Rightarrow> \<not> truthy v)"

text \<open>
  ToString, as a template literal, a property key and \<^verbatim>\<open>Array.prototype.join\<close> apply it;
  \<open>None\<close> when it throws a TypeError. An array is the join of its elements with a comma,
  \<^verbatim>\<open>null\<close> elements giving the empty string. A parsed object converts through the
  inherited \<^verbatim>\<open>toString\<close>; an own property of that name is no function and hides it, and
  then no method yields a primitive.
\<close>

fun json_toString :: "json \<Rightarrow> jsstring option"
  and join :: "json list \<Rightarrow> jsstring option" where
  "json_toString JNull = Some (str ''null'')"
| "json_toString (JBool b) = Some (if b then str ''true'' else str ''false'')"
| "json_toString (JNum i) =
     Some (if i < 0 then str ''-'' @ decimal (nat (- i)) else decimal (nat i))"
| "json_toString (JStr s) = Some s"
| "json_toString (JArr xs) = join xs"
| "json_toString (JObj kv) =
     (if map_of kv (str ''toString'') = None then Some (str ''[object Object]'') else None)"
| "join [] = Some []"
| "join (x # xs) =
     (case (if x = JNull then Some [] else json_toString x) of
        None \<Rightarrow> None
      | Some s \<Rightarrow>
          if xs = [] then Some s
          else (case join xs of None \<Rightarrow> None | Some r \<Rightarrow> Some (s @ str '','' @ r)))"

text \<open>
  A value in a handler is parsed JSON, or \<open>JNative k\<close>: the value of the property \<open>k\<close>
  that every object literal inherits from \<^verbatim>\<open>Object.prototype\<close>, a built-in function, or
  for \<^verbatim>\<open>__proto__\<close> the prototype object.
\<close>

datatype jsval = Json json | JNative jsstring

fun truthy_val :: "jsval \<Rightarrow> bool" where
  "truthy_val (Json v) = truthy v"
| "truthy_val (JNative k) = True"

text \<open>String conversion inside a template literal (function sources as V8 prints them).\<close>

fun js_toString :: "jsval \<Rightarrow> jsstring option" where
  "js_toString (Json v) = json_toString v"
| "js_toString (JNative k) =
     Some (if k = str ''__proto__'' then str ''[object Object]''
           else if k = str ''constructor'' then str ''function Object() { [native code] }''
           else str ''function '' @ k @ str ''() { [native code] }'')"

text \<open>
  What \<^verbatim>\<open>JSON.stringify\<close> writes for a property value: a function-valued property is
  left out, the bare prototype object is written as the empty object.
\<close>

fun json_value :: "jsval \<Rightarrow> json option" where
  "json_value (Json v) = Some v"
| "json_value (JNative k) = (if k = str ''__proto__'' then Some (JObj []) else None)"

text \<open>The own property names of \<^verbatim>\<open>Object.prototype\<close>, which every object literal inherits.\<close>

definition object_prototype :: "jsstring list" where
  "object_prototype =
     [str ''constructor'', str ''__defineGetter__'', str ''__defineSetter__'',
      str ''hasOwnProperty'', str ''__lookupGetter__'', str ''__lookupSetter__'',
      str ''isPrototypeOf'', str ''propertyIsEnumerable'', str ''toString'',
      str ''valueOf'', str ''__proto__'', str ''toLocaleString'']"

text \<open>
  \<^verbatim>\<open>obj[k]\<close> on an object literal with string values: the own property if there is
  one, else the inherited one, else \<^verbatim>\<open>undefined\<close> (\<open>None\<close>).
\<close>

definition js_get :: "(jsstring \<times> jsstring) list \<Rightarrow> jsstring \<Rightarrow> jsval option" where
  "js_get table k =
     (case map_of table k of
        Some v \<Rightarrow> Some (Json (JStr v))
      | None \<Rightarrow> if k \<in> set object_prototype then Some (JNative k) else None)"

text \<open>
  \<^verbatim>\<open>const { text, targetLanguage } = body\<close> on a body other than \<^verbatim>\<open>null\<close>: the own
  property of an object, and \<^verbatim>\<open>undefined\<close> on anything else, since no prototype has
  a property of either name.
\<close>

definition text_of :: "json \<Rightarrow> json option" where
  "text_of body = (case body of JObj kv \<Rightarrow> map_of kv (str ''text'') | _ \<Rightarrow> None)"

definition targetLanguage_of :: "json \<Rightarrow> json option" where
  "targetLanguage_of body =
     (case body of JObj kv \<Rightarrow> map_of kv (str ''targetLanguage'') | _ \<Rightarrow> None)"

text \<open>
  \<^verbatim>\<open>v.length\<close> on a truthy value: the number of code units of a string, the number of
  elements of an array, the own property of an object, \<^verbatim>\<open>undefined\<close> on a number or a
  boolean.
\<close>

fun js_length :: "json \<Rightarrow> json option" where
  "js_length (JStr s) = Some (JNum (int (length s)))"
| "js_length (JArr xs) = Some (JNum (int (length xs)))"
| "js_length (JObj kv) = map_of kv (str ''length'')"
| "js_length v = None"

section \<open>The engine, requests, environment, provider, responses\<close>

text \<open>
  What the source leaves to the JavaScript engine. Reading a string as a number goes
  through floating point, so the outcome of \<^verbatim>\<open>s > 1000\<close> on a string \<open>s\<close> is taken as
  given; so are the messages of the TypeErrors the engine throws: for destructuring
  \<^verbatim>\<open>null\<close> or \<^verbatim>\<open>undefined\<close> (source text of the operand, its value), for calling what
  is no function (source text of the callee), and for an object that converts to no
  primitive.
\<close>

record engine =
  stringExceeds1000 :: "jsstring \<Rightarrow> bool"
  cannotDestructure :: "jsstring \<Rightarrow> json option \<Rightarrow> jsstring"
  notAFunction :: "jsstring \<Rightarrow> jsstring"
  cannotConvert :: jsstring

text \<open>A thrown error, observed through \<^verbatim>\<open>error.constructor.name\<close> and \<^verbatim>\<open>error.message\<close>.\<close>

record jserror =
  ctorName :: jsstring
  message :: jsstring

definition typeError :: "jsstring \<Rightarrow> jserror" where
  "typeError msg = \<lparr>ctorName = str ''TypeError'', message = msg\<rparr>"

text \<open>
  \<^verbatim>\<open>x > 1000\<close> for the value of \<^verbatim>\<open>text.length\<close>; \<open>None\<close> when the conversion to a
  primitive throws. \<^verbatim>\<open>undefined\<close> and an object read as NaN, \<^verbatim>\<open>null\<close> and a boolean
  as 0 or 1; an array is read through its string form.
\<close>

fun greater1000 :: "engine \<Rightarrow> json option \<Rightarrow> bool option" where
  "greater1000 E None = Some False"
| "greater1000 E (Some JNull) = Some False"
| "greater1000 E (Some (JBool b)) = Some False"
| "greater1000 E (Some (JNum i)) = Some (1000 < i)"
| "greater1000 E (Some (JStr s)) = Some (stringExceeds1000 E s)"
| "greater1000 E (Some (JArr xs)) =
     (case json_toString (JArr xs) of None \<Rightarrow> None | Some s \<Rightarrow> Some (stringExceeds1000 E s))"
| "greater1000 E (Some (JObj kv)) =
     (case json_toString (JObj kv) of None \<Rightarrow> None | Some s \<Rightarrow> Some False)"

text \<open>
  \<open>json\<close> is the outcome of \<^verbatim>\<open>await request.json()\<close> in a worker: the error thrown, or
  the parsed body.
\<close>

record request =
  method_of :: jsstring
  pathname :: jsstring
  json :: "jserror + json"

record env =
  GEMINI_API_KEY :: "jsstring option"

text \<open>\<^verbatim>\<open>!env.GEMINI_API_KEY\<close>: the variable is unset or the empty string.\<close>

definition falsy :: "jsstring option \<Rightarrow> bool" where
  "falsy x \<longleftrightarrow> x = None \<or> x = Some []"

text \<open>The readings of \<^verbatim>\<open>Date.now()\<close> and \<^verbatim>\<open>new Date().toISOString()\<close> during one request.\<close>

record clock =
  startNow :: int
  endNow :: int
  isoNow :: jsstring

text \<open>
  The generation provider (\<^verbatim>\<open>@google/generative-ai\<close>), external to the repository:
  the constructor and \<^verbatim>\<open>getGenerativeModel\<close> may throw; \<^verbatim>\<open>generateContent\<close>
  followed by \<^verbatim>\<open>response.text()\<close> throws or yields the generated text. Each takes the
  credential it was configured with, the latter two the model name, the last the prompt.
\<close>

record provider =
  GoogleGenerativeAI :: "jsstring option \<Rightarrow> jserror option"
  getGenerativeModel :: "jsstring option \<Rightarrow> jsstring \<Rightarrow> jserror option"
  generateContent :: "jsstring option \<Rightarrow> jsstring \<Rightarrow> jsstring \<Rightarrow> jserror + jsstring"

text \<open>A response: its status and the object handed to \<^verbatim>\<open>JSON.stringify\<close>, if any.\<close>

record reply =
  status :: nat
  payload :: "(jsstring \<times> jsval) list option"

record response = reply +
  headers :: "(jsstring \<times> jsstring) list"

text \<open>
  A handler returns its response together with the outbound calls it made to
  \<^verbatim>\<open>generateContent\<close>, each as (model name, prompt).
\<close>

type_synonym calls = "(jsstring \<times> jsstring) list"

text \<open>The value the serialised JSON body carries under a key, if any.\<close>

definition field :: "'a reply_scheme \<Rightarrow> string \<Rightarrow> json option" where
  "field r k =
     (case payload r of
        Some kv \<Rightarrow> (case map_of kv (str k) of Some v \<Rightarrow> json_value v | None \<Rightarrow> None)
      | None \<Rightarrow> None)"

section \<open>Shared constants of the two workers (Index.js)\<close>

text \<open>The language table, written out identically in the production and the debug worker.\<close>

definition languageNames :: "(jsstring \<times> jsstring) list" where
  "languageNames =
     [(str ''es'', str ''Spanish''), (str ''fr'', str ''French''), (str ''de'', str ''German''),
      (str ''ja'', str ''Japanese''), (str ''zh'', str ''Chinese''), (str ''ko'', str ''Korean''),
      (str ''it'', str ''Italian''), (str ''pt'', str ''Portuguese''), (str ''ru'', str ''Russian''),
      (str ''ar'', str ''Arabic''), (str ''vi'', str ''Vietnamese''), (str ''th'', str ''Thai''),
      (str ''nl'', str ''Dutch''), (str ''pl'', str ''Polish''), (str ''tr'', str ''Turkish''),
      (str ''sv'', str ''Swedish''), (str ''no'', str ''Norwegian''), (str ''da'', str ''Danish''),
      (str ''fi'', str ''Finnish''), (str ''hi'', str ''Hindi'')]"

text \<open>
  \<^verbatim>\<open>languageNames[targetLanguage] || targetLanguage\<close>, for a given table: the value is
  converted to a property key first, and \<open>None\<close> when that conversion throws.
\<close>

definition targetLangName :: "(jsstring \<times> jsstring) list \<Rightarrow> json \<Rightarrow> jsval option" where
  "targetLangName table targetLanguage =
     (case json_toString targetLanguage of
        None \<Rightarrow> None
      | Some k \<Rightarrow>
          Some (case js_get table k of
                  Some v \<Rightarrow> if truthy_val v then v else Json targetLanguage
                | None \<Rightarrow> Json targetLanguage))"

text \<open>
  The prompt template of both workers, one line feed before the text; \<open>None\<close> when
  converting the name or the text to a string throws.
\<close>

definition prompt :: "jsval \<Rightarrow> json \<Rightarrow> jsstring option" where
  "prompt name txt =
     (case js_toString name of
        None \<Rightarrow> None
      | Some d \<Rightarrow>
          (case json_toString txt of
             None \<Rightarrow> None
           | Some t \<Rightarrow>
               Some (str ''Translate the following text to '' @ d
                     @ str ''. Only provide the translation, no explanations or additional text:''
                     @ [0xA] @ t)))"

definition corsHeaders :: "(jsstring \<times> jsstring) list" where
  "corsHeaders =
     [(str ''Access-Control-Allow-Origin'', str ''*''),
      (str ''Access-Control-Allow-Methods'', str ''GET, POST, OPTIONS''),
      (str ''Access-Control-Allow-Headers'', str ''Content-Type'')]"

text \<open>An object literal of the source, and a string literal as a value in it.\<close>

definition obj :: "(string \<times> jsval) list \<Rightarrow> (jsstring \<times> jsval) list" where
  "obj kv = map (\<lambda>(k, v). (str k, v)) kv"

definition lit :: "string \<Rightarrow> jsval" where
  "lit s = Json (JStr (str s))"

text \<open>\<^verbatim>\<open>new Response(JSON.stringify(o), { status, headers: { 'Content-Type': ..., ...corsHeaders } })\<close>\<close>

definition json_response :: "nat \<Rightarrow> (string \<times> jsval) list \<Rightarrow> response" where
  "json_response st kv =
     \<lparr>status = st, payload = Some (obj kv),
      headers = (str ''Content-Type'', str ''application/json'') # corsHeaders\<rparr>"

text \<open>\<^verbatim>\<open>new Response(null, { headers: corsHeaders })\<close>, the answer to a preflight.\<close>

definition preflight_response :: response where
  "preflight_response = \<lparr>status = 200, payload = None, headers = corsHeaders\<rparr>"

definition endpoints :: jsval where
  "endpoints = Json (JObj [(str ''translate'', JStr (str ''POST /translate'')),
                           (str ''health'', JStr (str ''GET /health''))])"

section \<open>The production worker (Index.js, first module)\<close>

definition model_production :: jsstring where
  "model_production = str ''gemini-2.0-flash-exp''"

text \<open>The \<^verbatim>\<open>catch (error)\<close> of the production worker.\<close>

definition caught_production :: "jserror \<Rightarrow> response" where
  "caught_production err =
     json_response 500 [(''error'', lit ''Translation failed''),
                        (''details'', Json (JStr (message err)))]"

text \<open>
  The body of the \<^verbatim>\<open>try\<close> block of the translation route. Every \<^verbatim>\<open>throw\<close> inside it
  lands in the single \<^verbatim>\<open>catch\<close>: a body that does not parse, destructuring \<^verbatim>\<open>null\<close>,
  a conversion that yields no primitive, the provider. Once
  \<^verbatim>\<open>!text || !targetLanguage\<close> has failed, both properties are present: the last branch of
  the \<open>case\<close> only completes the pattern match and is never taken. Calls to
  \<^verbatim>\<open>console\<close> are not modelled, here and below, apart from a throw inside their arguments.
\<close>

definition translate_production :: "engine \<Rightarrow> provider \<Rightarrow> env \<Rightarrow> request \<Rightarrow> response \<times> calls" where
  "translate_production E P e req =
     (case json req of
        Inl err \<Rightarrow> (caught_production err, [])
      | Inr body \<Rightarrow>
          if body = JNull then
            (caught_production (typeError (cannotDestructure E (str ''body'') (Some JNull))), [])
          else if js_not (text_of body) \<or> js_not (targetLanguage_of body) then
            (json_response 400
               [(''error'', lit ''Missing required fields: text and targetLanguage'')], [])
          else
            (case (text_of body, targetLanguage_of body) of
               (Some txt, Some targetLanguage) \<Rightarrow>
                 (case greater1000 E (js_length txt) of
                    None \<Rightarrow> (caught_production (typeError (cannotConvert E)), [])
                  | Some long \<Rightarrow>
                      if long then
                        (json_response 400
                           [(''error'', lit ''Text too long (max 1000 characters)'')], [])
                      else
                        (case targetLangName languageNames targetLanguage of
                           None \<Rightarrow> (caught_production (typeError (cannotConvert E)), [])
                         | Some name \<Rightarrow>
                        (case GoogleGenerativeAI P (GEMINI_API_KEY e) of
                           Some err \<Rightarrow> (caught_production err, [])
                         | None \<Rightarrow>
                        (case getGenerativeModel P (GEMINI_API_KEY e) model_production of
                           Some err \<Rightarrow> (caught_production err, [])
                         | None \<Rightarrow>
                        (case prompt name txt of
                           None \<Rightarrow> (caught_production (typeError (cannotConvert E)), [])
                         | Some p \<Rightarrow>
                        (case generateContent P (GEMINI_API_KEY e) model_production p of
                           Inl err \<Rightarrow> (caught_production err, [(model_production, p)])
                         | Inr generated \<Rightarrow>
                             (json_response 200
                                [(''translation'', Json (JStr (js_trim generated))),
                                 (''sourceText'', Json txt),
                                 (''targetLanguage'', name)],
                              [(model_production, p)])))))))
             | _ \<Rightarrow>
                 (json_response 400
                    [(''error'', lit ''Missing required fields: text and targetLanguage'')], [])))"

definition fetch_production :: "engine \<Rightarrow> provider \<Rightarrow> env \<Rightarrow> request \<Rightarrow> response \<times> calls" where
  "fetch_production E P e req =
     (if method_of req = str ''OPTIONS'' then (preflight_response, [])
      else if pathname req = str ''/'' then
        (json_response 200
           [(''service'', lit ''Roblox Translation API''),
            (''version'', lit ''1.0.0''),
            (''endpoints'', endpoints)], [])
      else if pathname req = str ''/health'' then
        (json_response 200
           [(''status'', lit ''ok''),
            (''message'', lit ''Translation service is running'')], [])
      else if pathname req = str ''/translate'' \<and> method_of req = str ''POST'' then
        translate_production E P e req
      else (json_response 404 [(''error'', lit ''Not found'')], []))"

section \<open>The debug worker (Index.js, second module)\<close>

definition model_debug :: jsstring where
  "model_debug = str ''gemini-2.5-flash''"

text \<open>The outer \<^verbatim>\<open>catch (error)\<close> of the debug worker.\<close>

definition caught_debug :: "clock \<Rightarrow> jserror \<Rightarrow> response" where
  "caught_debug c err =
     json_response 500
       [(''error'', lit ''Translation failed''),
        (''details'', Json (JStr (message err))),
        (''errorType'', Json (JStr (ctorName err))),
        (''processingTime'', Json (JNum (endNow c - startNow c))),
        (''timestamp'', Json (JStr (isoNow c))),
        (''errorCode'', lit ''UNKNOWN_ERROR'')]"

text \<open>Step 4 \<^verbatim>\<open>catch (initError)\<close>: a credential message is answered, anything else rethrown.\<close>

definition initError_debug :: "clock \<Rightarrow> jserror \<Rightarrow> response" where
  "initError_debug c err =
     (if js_includes (message err) (str ''API key'') \<or> js_includes (message err) (str ''api_key'')
      then json_response 500
             [(''error'', lit ''Invalid API key''),
              (''details'', lit ''The Gemini API key appears to be invalid. Please check it.''),
              (''solution'', lit ''Get a new key from https://makersuite.google.com/app/apikey''),
              (''errorCode'', lit ''INVALID_API_KEY'')]
      else caught_debug c err)"

text \<open>Step 5 \<^verbatim>\<open>catch (geminiError)\<close>: quota or rate first, then the credential, else rethrown.\<close>

definition geminiError_debug :: "clock \<Rightarrow> jserror \<Rightarrow> response" where
  "geminiError_debug c err =
     (if js_includes (message err) (str ''quota'') \<or> js_includes (message err) (str ''rate'')
      then json_response 429
             [(''error'', lit ''API quota exceeded''),
              (''details'', lit ''Gemini API rate limit reached. Please wait a moment.''),
              (''errorCode'', lit ''QUOTA_EXCEEDED'')]
      else if js_includes (message err) (str ''API key'')
      then json_response 500
             [(''error'', lit ''Invalid API key''),
              (''details'', Json (JStr (message err))),
              (''errorCode'', lit ''INVALID_API_KEY'')]
      else caught_debug c err)"

text \<open>The details of MISSING_FIELDS; the field names stand in double quotes (code unit 0x22).\<close>

definition missing_details :: jsstring where
  "missing_details =
     str ''Both '' @ [0x22] @ str ''text'' @ [0x22] @ str '' and '' @ [0x22]
     @ str ''targetLanguage'' @ [0x22] @ str '' are required''"

text \<open>\<^verbatim>\<open>${text.length}\<close> in the details of TEXT_TOO_LONG.\<close>

definition length_text :: "json \<Rightarrow> jsstring option" where
  "length_text txt =
     (case js_length txt of None \<Rightarrow> Some (str ''undefined'') | Some v \<Rightarrow> json_toString v)"

text \<open>
  The translation route of the debug worker, step by step as the source numbers them:
  credential, body, fields and length, client, generation, success. Between the
  validation and the client the source logs \<^verbatim>\<open>text.substring(0, 50)\<close>: on a text that
  is no string this call throws, and like the destructuring of a \<^verbatim>\<open>null\<close> body and a
  failed conversion the throw lands in the outer \<^verbatim>\<open>catch\<close>.
\<close>

definition translate_debug ::
  "engine \<Rightarrow> provider \<Rightarrow> env \<Rightarrow> clock \<Rightarrow> request \<Rightarrow> response \<times> calls" where
  "translate_debug E P e c req =
     (if falsy (GEMINI_API_KEY e) then
        (json_response 500
           [(''error'', lit ''Server configuration error''),
            (''details'', lit ''GEMINI_API_KEY is not set. Please configure the API key.''),
            (''solution'', lit ''Run: npx wrangler secret put GEMINI_API_KEY''),
            (''errorCode'', lit ''API_KEY_MISSING'')], [])
      else
        (case json req of
           Inl parseError \<Rightarrow>
             (json_response 400
                [(''error'', lit ''Invalid JSON''),
                 (''details'', Json (JStr (message parseError))),
                 (''errorCode'', lit ''JSON_PARSE_ERROR'')], [])
         | Inr body \<Rightarrow>
             if body = JNull then
               (caught_debug c (typeError (cannotDestructure E (str ''body'') (Some JNull))), [])
             else if js_not (text_of body) \<or> js_not (targetLanguage_of body) then
               (json_response 400
                  [(''error'', lit ''Missing required fields''),
                   (''details'', Json (JStr missing_details)),
                   (''errorCode'', lit ''MISSING_FIELDS'')], [])
             else
               (case (text_of body, targetLanguage_of body) of
                  (Some txt, Some targetLanguage) \<Rightarrow>
                    (case greater1000 E (js_length txt) of
                       None \<Rightarrow> (caught_debug c (typeError (cannotConvert E)), [])
                     | Some long \<Rightarrow>
                         if long then
                           (case length_text txt of
                              None \<Rightarrow> (caught_debug c (typeError (cannotConvert E)), [])
                            | Some n \<Rightarrow>
                                (json_response 400
                                   [(''error'', lit ''Text too long''),
                                    (''details'',
                                       Json (JStr (str ''Text length: '' @ n
                                                   @ str '', Max: 1000 characters''))),
                                    (''errorCode'', lit ''TEXT_TOO_LONG'')], []))
                         else
                           (case targetLangName languageNames targetLanguage of
                              None \<Rightarrow> (caught_debug c (typeError (cannotConvert E)), [])
                            | Some name \<Rightarrow>
                                (case txt of
                                   JStr t \<Rightarrow>
                                     (case GoogleGenerativeAI P (GEMINI_API_KEY e) of
                                        Some initError \<Rightarrow> (initError_debug c initError, [])
                                      | None \<Rightarrow>
                                     (case getGenerativeModel P (GEMINI_API_KEY e) model_debug of
                                        Some initError \<Rightarrow> (initError_debug c initError, [])
                                      | None \<Rightarrow>
                                     (case prompt name txt of
                                        None \<Rightarrow>
                                          (caught_debug c (typeError (cannotConvert E)), [])
                                      | Some p \<Rightarrow>
                                     (case generateContent P (GEMINI_API_KEY e) model_debug p of
                                        Inl geminiError \<Rightarrow>
                                          (geminiError_debug c geminiError, [(model_debug, p)])
                                      | Inr generated \<Rightarrow>
                                          (json_response 200
                                             [(''translation'', Json (JStr (js_trim generated))),
                                              (''sourceText'', Json txt),
                                              (''targetLanguage'', name),
                                              (''processingTime'',
                                                 Json (JNum (endNow c - startNow c)))],
                                           [(model_debug, p)])))))
                                 | _ \<Rightarrow>
                                     (caught_debug c
                                        (typeError (notAFunction E (str ''text.substring''))),
                                      []))))
                | _ \<Rightarrow>
                    (json_response 400
                       [(''error'', lit ''Missing required fields''),
                        (''details'', Json (JStr missing_details)),
                        (''errorCode'', lit ''MISSING_FIELDS'')], []))))"

definition fetch_debug ::
  "engine \<Rightarrow> provider \<Rightarrow> env \<Rightarrow> clock \<Rightarrow> request \<Rightarrow> response \<times> calls" where
  "fetch_debug E P e c req =
     (if method_of req = str ''OPTIONS'' then (preflight_response, [])
      else if pathname req = str ''/health'' then
        (json_response 200
           [(''status'', lit ''ok''),
            (''message'', lit ''Translation service is running''),
            (''apiKeyConfigured'', Json (JBool (\<not> falsy (GEMINI_API_KEY e)))),
            (''apiKeyLength'',
               Json (JNum (case GEMINI_API_KEY e of Some k \<Rightarrow> int (length k) | None \<Rightarrow> 0))),
            (''timestamp'', Json (JStr (isoNow c))),
            (''workerVersion'', lit ''2.0-debug'')], [])
      else if pathname req = str ''/'' then
        (json_response 200
           [(''service'', lit ''Roblox Translation API''),
            (''version'', lit ''2.0-debug''),
            (''endpoints'', endpoints)], [])
      else if pathname req = str ''/translate'' \<and> method_of req = str ''POST'' then
        translate_debug E P e c req
      else
        (json_response 404
           [(''error'', lit ''Not found''),
            (''path'', Json (JStr (pathname req))),
            (''errorCode'', lit ''NOT_FOUND'')], []))"

section \<open>The Express server (server.js)\<close>

text \<open>The table of server.js has the first ten entries only.\<close>

definition languageNames_server :: "(jsstring \<times> jsstring) list" where
  "languageNames_server =
     [(str ''es'', str ''Spanish''), (str ''fr'', str ''French''), (str ''de'', str ''German''),
      (str ''ja'', str ''Japanese''), (str ''zh'', str ''Chinese''), (str ''ko'', str ''Korean''),
      (str ''it'', str ''Italian''), (str ''pt'', str ''Portuguese''), (str ''ru'', str ''Russian''),
      (str ''ar'', str ''Arabic'')]"

definition model_server :: jsstring where
  "model_server = str ''gemini-3-flash-preview''"

text \<open>The template literal of server.js spans three source lines: two line feeds.\<close>

definition prompt_server :: "jsval \<Rightarrow> json \<Rightarrow> jsstring option" where
  "prompt_server name txt =
     (case js_toString name of
        None \<Rightarrow> None
      | Some d \<Rightarrow>
          (case json_toString txt of
             None \<Rightarrow> None
           | Some t \<Rightarrow>
               Some (str ''Translate the following text to '' @ d
                     @ str ''. Only provide the translation, no explanations or additional text:''
                     @ [0xA, 0xA] @ t)))"

definition caught_server :: "jserror \<Rightarrow> reply" where
  "caught_server err =
     \<lparr>status = 500,
      payload = Some (obj [(''error'', lit ''Translation failed''),
                           (''details'', Json (JStr (message err)))])\<rparr>"

text \<open>
  The callback of \<^verbatim>\<open>app.post('/translate', ...)\<close>, applied to \<^verbatim>\<open>req.body\<close>, which is
  \<^verbatim>\<open>undefined\<close> (\<open>None\<close>) when no body parser filled it. The client \<^verbatim>\<open>genAI\<close> was built
  when the module was loaded; \<^verbatim>\<open>res.json\<close> answers with status 200 unless
  \<^verbatim>\<open>res.status\<close> was called.
\<close>

definition post_translate ::
  "engine \<Rightarrow> provider \<Rightarrow> env \<Rightarrow> json option \<Rightarrow> reply \<times> calls" where
  "post_translate E P e req_body =
     (case req_body of
        None \<Rightarrow> (caught_server (typeError (cannotDestructure E (str ''req.body'') None)), [])
      | Some body \<Rightarrow>
          if body = JNull then
            (caught_server (typeError (cannotDestructure E (str ''req.body'') (Some JNull))), [])
          else if js_not (text_of body) \<or> js_not (targetLanguage_of body) then
            (\<lparr>status = 400,
              payload = Some (obj [(''error'',
                           lit ''Missing required fields: text and targetLanguage'')])\<rparr>, [])
          else
            (case (text_of body, targetLanguage_of body) of
               (Some txt, Some targetLanguage) \<Rightarrow>
                 (case greater1000 E (js_length txt) of
                    None \<Rightarrow> (caught_server (typeError (cannotConvert E)), [])
                  | Some long \<Rightarrow>
                      if long then
                        (\<lparr>status = 400,
                          payload = Some (obj [(''error'',
                                       lit ''Text too long (max 1000 characters)'')])\<rparr>, [])
                      else
                        (case targetLangName languageNames_server targetLanguage of
                           None \<Rightarrow> (caught_server (typeError (cannotConvert E)), [])
                         | Some name \<Rightarrow>
                        (case getGenerativeModel P (GEMINI_API_KEY e) model_server of
                           Some err \<Rightarrow> (caught_server err, [])
                         | None \<Rightarrow>
                        (case prompt_server name txt of
                           None \<Rightarrow> (caught_server (typeError (cannotConvert E)), [])
                         | Some p \<Rightarrow>
                        (case generateContent P (GEMINI_API_KEY e) model_server p of
                           Inl err \<Rightarrow> (caught_server err, [(model_server, p)])
                         | Inr generated \<Rightarrow>
                             (\<lparr>status = 200,
                               payload = Some (obj [(''translation'', Json (JStr (js_trim generated))),
                                                    (''sourceText'', Json txt),
                                                    (''targetLanguage'', name)])\<rparr>,
                              [(model_server, p)]))))))
             | _ \<Rightarrow>
                 (\<lparr>status = 400,
                   payload = Some (obj [(''error'',
                                lit ''Missing required fields: text and targetLanguage'')])\<rparr>,
                  [])))"

text \<open>The callbacks of \<^verbatim>\<open>app.get('/health', ...)\<close> and \<^verbatim>\<open>app.get('/', ...)\<close>.\<close>

definition get_health :: reply where
  "get_health =
     \<lparr>status = 200,
      payload = Some (obj [(''status'', lit ''ok''),
                           (''message'', lit ''Translation service is running'')])\<rparr>"

definition get_root :: reply where
  "get_root =
     \<lparr>status = 200,
      payload = Some (obj [(''service'', lit ''Roblox Translation API''),
                           (''version'', lit ''1.0.0''),
                           (''endpoints'', endpoints)])\<rparr>"

text \<open>
  A request as the application of server.js sees it. \<open>req_body\<close> is what
  \<^verbatim>\<open>express.json()\<close> did with the body: the error it raised (malformed JSON, a body
  over its size limit, a top-level value it does not accept), or \<^verbatim>\<open>req.body\<close>, left
  \<^verbatim>\<open>undefined\<close> or set to what it parsed. For one and the same HTTP request this need
  not be what \<^verbatim>\<open>request.json()\<close> gives a worker: the parser skips a body whose
  Content-Type is not JSON.
\<close>

record express_request =
  req_method :: jsstring
  req_path :: jsstring
  req_body :: "jserror + json option"

text \<open>
  Express's router is library code: whether a route registered for a verb and a path
  matches the method and path of a request is taken as given (registered verb,
  registered path, request method, request path).
\<close>

type_synonym router = "jsstring \<Rightarrow> jsstring \<Rightarrow> jsstring \<Rightarrow> jsstring \<Rightarrow> bool"

text \<open>
  The application of server.js: \<open>None\<close> when no callback written in server.js answers.
  That is the case when the module fails to load (the constructor throws), for a
  preflight (answered inside \<^verbatim>\<open>cors()\<close>), for a body that \<^verbatim>\<open>express.json()\<close> rejects, and
  for a request no registered route matches, which Express answers by itself. Routes
  are tried in the order of their registration.
\<close>

definition server_js ::
  "router \<Rightarrow> engine \<Rightarrow> provider \<Rightarrow> env \<Rightarrow> express_request \<Rightarrow> (reply \<times> calls) option" where
  "server_js R E P e req =
     (case GoogleGenerativeAI P (GEMINI_API_KEY e) of
        Some err \<Rightarrow> None
      | None \<Rightarrow>
          if req_method req = str ''OPTIONS'' then None
          else
            (case req_body req of
               Inl err \<Rightarrow> None
             | Inr body \<Rightarrow>
                 if R (str ''POST'') (str ''/translate'') (req_method req) (req_path req)
                 then Some (post_translate E P e body)
                 else if R (str ''GET'') (str ''/health'') (req_method req) (req_path req)
                 then Some (get_health, [])
                 else if R (str ''GET'') (str ''/'') (req_method req) (req_path req)
                 then Some (get_root, [])
                 else None))"

section \<open>Observations on responses\<close>

text \<open>A string with no white space at either end.\<close>

definition trimmed :: "jsstring \<Rightarrow> bool" where
  "trimmed s \<longleftrightarrow> s = [] \<or> (\<not> isWhiteSpace (hd s) \<and> \<not> isWhiteSpace (last s))"


section \<open>Sample inputs\<close>

text \<open>
  An engine with V8's messages (the quotes are code unit 0x27). Its reading of strings
  as numbers is exact on plain digit strings only; no statement below depends on it.
\<close>

definition sample_engine :: engine where
  "sample_engine =
     \<lparr>stringExceeds1000 = (\<lambda>s. s \<noteq> [] \<and> list_all (\<lambda>u. 0x30 \<le> u \<and> u \<le> 0x39) s
          \<and> 1000 < foldl (\<lambda>n u. 10 * n + (unat u - 48)) 0 s),
      cannotDestructure = (\<lambda>operand v.
          str ''Cannot destructure property '' @ [0x27] @ str ''text'' @ [0x27] @ str '' of ''
          @ [0x27] @ operand @ [0x27] @ str '' as it is ''
          @ (if v = None then str ''undefined'' else str ''null'') @ str ''.''),
      notAFunction = (\<lambda>callee. callee @ str '' is not a function''),
      cannotConvert = str ''Cannot convert object to primitive value''\<rparr>"

text \<open>
  The router with the defaults of Express 4: a route registered with \<^verbatim>\<open>app.get\<close> also
  serves HEAD, letters of the path compare without case, and one trailing slash is
  allowed on a path other than the root.
\<close>

definition lower :: "16 word \<Rightarrow> 16 word" where
  "lower u = (if 0x41 \<le> u \<and> u \<le> 0x5A then u + 0x20 else u)"

definition express_path :: "jsstring \<Rightarrow> jsstring \<Rightarrow> bool" where
  "express_path registered p \<longleftrightarrow>
     map lower p = registered \<or> (registered \<noteq> str ''/'' \<and> map lower p = registered @ str ''/'')"

definition express4_router :: router where
  "express4_router verb registered m p \<longleftrightarrow>
     (m = verb \<or> (verb = str ''GET'' \<and> m = str ''HEAD'')) \<and> express_path registered p"

text \<open>
  A provider that rejects an absent or empty credential at generation time, as the
  remote service does, and otherwise answers with padded text.
\<close>

definition sample_provider :: provider where
  "sample_provider =
     \<lparr>GoogleGenerativeAI = (\<lambda>key. None),
      getGenerativeModel = (\<lambda>key model. None),
      generateContent = (\<lambda>key model p.
        if falsy key
        then Inl \<lparr>ctorName = str ''GoogleGenerativeAIFetchError'',
                  message = str ''API key not valid. Please pass a valid API key.''\<rparr>
        else Inr (str '' Hola '' @ [0xA]))\<rparr>"

text \<open>A provider whose generation always throws the given message.\<close>

definition failing_provider :: "jsstring \<Rightarrow> provider" where
  "failing_provider msg =
     \<lparr>GoogleGenerativeAI = (\<lambda>key. None),
      getGenerativeModel = (\<lambda>key model. None),
      generateContent = (\<lambda>key model p. Inl \<lparr>ctorName = str ''Error'', message = msg\<rparr>)\<rparr>"

definition sample_env :: env where
  "sample_env = \<lparr>GEMINI_API_KEY = Some (str ''AIzaSy-sample-key'')\<rparr>"

definition no_key_env :: env where
  "no_key_env = \<lparr>GEMINI_API_KEY = None\<rparr>"

definition sample_clock :: clock where
  "sample_clock = \<lparr>startNow = 1000, endNow = 1250, isoNow = str ''2025-01-01T00:00:00.000Z''\<rparr>"

text \<open>A POST to \<^verbatim>\<open>/translate\<close> whose body parses to the given value.\<close>

definition post_request :: "json \<Rightarrow> request" where
  "post_request body =
     \<lparr>method_of = str ''POST'', pathname = str ''/translate'', json = Inr body\<rparr>"

text \<open>The body \<^verbatim>\<open>{"text": txt, "targetLanguage": lang}\<close> with two strings.\<close>

definition translation_body :: "jsstring \<Rightarrow> jsstring \<Rightarrow> json" where
  "translation_body txt lang = JObj [(str ''text'', JStr txt), (str ''targetLanguage'', JStr lang)]"

definition post_translate_request :: "jsstring \<Rightarrow> jsstring \<Rightarrow> request" where
  "post_translate_request txt lang = post_request (translation_body txt lang)"

definition unparseable_request :: request where
  "unparseable_request =
     \<lparr>method_of = str ''POST'', pathname = str ''/translate'',
      json = Inl \<lparr>ctorName = str ''SyntaxError'',
                 message = str ''Unexpected end of JSON input''\<rparr>\<rparr>"

text \<open>A GET without a body, to a worker and to the Express application.\<close>

definition get_request :: "jsstring \<Rightarrow> request" where
  "get_request p =
     \<lparr>method_of = str ''GET'', pathname = p,
      json = Inl \<lparr>ctorName = str ''SyntaxError'',
                 message = str ''Unexpected end of JSON input''\<rparr>\<rparr>"

definition express_get :: "jsstring \<Rightarrow> express_request" where
  "express_get p = \<lparr>req_method = str ''GET'', req_path = p, req_body = Inr None\<rparr>"

section \<open>Auxiliary facts about strings and responses\<close>

lemma str_char_inj: "(of_nat (of_char c) :: 16 word) = of_nat (of_char d) \<longleftrightarrow> c = d"
proof -
  have c: "(of_char c :: nat) < 65536"
    by (rule less_trans [OF nat_of_char_less_256]) simp
  have d: "(of_char d :: nat) < 65536"
    by (rule less_trans [OF nat_of_char_less_256]) simp
  show ?thesis
    using c d by (simp add: word_of_nat_eq_iff take_bit_nat_eq_self)
qed

lemma str_eq_iff [simp]: "str a = str b \<longleftrightarrow> a = b"
  unfolding str_def
proof (induction a arbitrary: b)
  case Nil
  then show ?case by auto
next
  case (Cons x a)
  then show ?case by (cases b) (auto simp: str_char_inj)
qed

lemma str_Nil [simp]: "str [] = []" "str s = [] \<longleftrightarrow> s = []" "[] = str s \<longleftrightarrow> s = []"
  by (auto simp: str_def)

lemma length_str [simp]: "length (str s) = length s"
  by (simp add: str_def)

lemma str_append:
  "str a @ str b = str (a @ b)" "str a @ str b @ r = str (a @ b) @ r"
  by (simp_all add: str_def)

lemma map_of_str_keys:
  "map_of (map (\<lambda>(k, v). (str k, v)) kv) (str k) = map_of kv k"
  by (induction kv) auto

lemma field_json_response [simp]:
  "field (json_response st kv) k = (case map_of kv k of Some v \<Rightarrow> json_value v | None \<Rightarrow> None)"
  by (simp add: field_def json_response_def obj_def map_of_str_keys)

lemma status_json_response [simp]: "status (json_response st kv) = st"
  by (simp add: json_response_def)

lemma js_includes_prefix: "js_includes (s @ b) s"
proof (cases "s @ b")
  case Nil
  then show ?thesis by simp
next
  case (Cons c r)
  have "take (length s) (s @ b) = s" by simp
  with Cons show ?thesis by simp
qed

lemma js_includes_append: "js_includes (a @ s @ b) s"
  by (induction a) (auto simp: js_includes_prefix)

lemma js_includes_str [simp]: "js_includes (str a) (str b) = js_includes a b"
proof (induction a)
  case Nil
  then show ?case by simp
next
  case (Cons c a)
  have cons: "str (c # a) = of_nat (of_char c) # str a"
    by (simp add: str_def)
  have "take (length (str b)) (str (c # a)) = str (take (length b) (c # a))"
    by (simp only: str_def length_map take_map)
  then have eq: "take (length (str b)) (str (c # a)) = str b \<longleftrightarrow> take (length b) (c # a) = b"
    by (simp only: str_eq_iff)
  have "js_includes (str (c # a)) (str b)
      \<longleftrightarrow> take (length (str b)) (str (c # a)) = str b \<or> js_includes (str a) (str b)"
    by (simp only: cons js_includes.simps)
  also have "\<dots> \<longleftrightarrow> take (length b) (c # a) = b \<or> js_includes a b"
    by (simp only: eq Cons.IH)
  also have "\<dots> \<longleftrightarrow> js_includes (c # a) b"
    by (simp only: js_includes.simps)
  finally show ?case .
qed

lemma js_trim_sample: "js_trim (str '' Hola '' @ [0xA]) = str ''Hola''"
  by code_simp

lemma dropWhile_id: "xs = [] \<or> \<not> P (hd xs) \<Longrightarrow> dropWhile P xs = xs"
  by (cases xs) auto

lemma trimmed_js_trim_id: "trimmed s \<Longrightarrow> js_trim s = s"
proof -
  assume t: "trimmed s"
  show ?thesis
  proof (cases "s = []")
    case True
    then show ?thesis by (simp add: js_trim_def)
  next
    case False
    with t have h: "\<not> isWhiteSpace (hd s)" and l: "\<not> isWhiteSpace (last s)"
      by (simp_all add: trimmed_def)
    from False h have 1: "dropWhile isWhiteSpace s = s"
      by (simp add: dropWhile_id)
    from False l have 2: "dropWhile isWhiteSpace (rev s) = rev s"
      by (simp add: dropWhile_id hd_rev)
    show ?thesis by (simp add: js_trim_def 1 2)
  qed
qed

lemma trimmed_js_trim: "trimmed (js_trim s)"
proof (cases "js_trim s = []")
  case True
  then show ?thesis by (simp add: trimmed_def)
next
  case False
  define u where "u = dropWhile isWhiteSpace s"
  define w where "w = dropWhile isWhiteSpace (rev u)"
  have tw: "js_trim s = rev w" by (simp add: js_trim_def u_def w_def)
  with False have wne: "w \<noteq> []" by simp
  have "\<not> isWhiteSpace (hd w)"
    using wne unfolding w_def by (rule hd_dropWhile)
  then have la: "\<not> isWhiteSpace (last (rev w))"
    using wne by (simp add: last_rev)
  have "rev u = takeWhile isWhiteSpace (rev u) @ w"
    by (simp add: w_def)
  then have "u = rev w @ rev (takeWhile isWhiteSpace (rev u))"
    by (metis rev_append rev_rev_ident)
  then have "hd u = hd (rev w)" and une: "u \<noteq> []"
    using wne by (metis hd_append2 rev_is_Nil_conv, metis Nil_is_append_conv rev_is_Nil_conv)
  moreover have "\<not> isWhiteSpace (hd u)"
    using une unfolding u_def by (rule hd_dropWhile)
  ultimately have "\<not> isWhiteSpace (hd (rev w))" by simp
  with la show ?thesis by (simp add: trimmed_def tw)
qed

lemma js_trim_idem: "js_trim (js_trim s) = js_trim s"
  by (rule trimmed_js_trim_id) (rule trimmed_js_trim)

lemma field_reply [simp]:
  "field \<lparr>status = st, payload = Some (obj kv)\<rparr> k =
     (case map_of kv k of Some v \<Rightarrow> json_value v | None \<Rightarrow> None)"
  by (simp add: field_def obj_def map_of_str_keys)

lemma field_preflight [simp]: "field preflight_response k = None"
  by (simp add: field_def preflight_response_def)

lemma json_value_lit [simp]: "json_value (lit s) = Some (JStr (str s))"
  by (simp add: lit_def)

lemma json_value_endpoints [simp]: "\<exists>kv. json_value endpoints = Some (JObj kv)"
  by (simp add: endpoints_def)

lemma string_text [simp]:
  "greater1000 E (js_length (JStr t)) = Some (1000 < length t)"
  "length_text (JStr t) = Some (decimal (length t))"
  by (simp_all add: length_text_def)

lemma translation_production:
  "field (fst (translate_production E P e req)) ''translation'' = Some (JStr t) \<Longrightarrow> \<exists>g. t = js_trim g"
  by (auto simp: translate_production_def caught_production_def
      split: sum.splits option.splits if_splits)

lemma translation_debug:
  "field (fst (translate_debug E P e c req)) ''translation'' = Some (JStr t) \<Longrightarrow> \<exists>g. t = js_trim g"
  by (auto simp: translate_debug_def caught_debug_def initError_debug_def geminiError_debug_def
      split: sum.splits option.splits if_splits json.splits)

lemma translation_server:
  "field (fst (post_translate E P e b)) ''translation'' = Some (JStr t) \<Longrightarrow> \<exists>g. t = js_trim g"
  by (auto simp: post_translate_def caught_server_def
      split: sum.splits option.splits if_splits)

lemma translation_fetch_production:
  "field (fst (fetch_production E P e req)) ''translation'' = Some (JStr t) \<Longrightarrow> \<exists>g. t = js_trim g"
  by (auto simp: fetch_production_def dest: translation_production
      split: if_splits)

lemma translation_fetch_debug:
  "field (fst (fetch_debug E P e c req)) ''translation'' = Some (JStr t) \<Longrightarrow> \<exists>g. t = js_trim g"
  by (auto simp: fetch_debug_def dest: translation_debug
      split: if_splits)

lemma translation_server_js:
  assumes "server_js R E P e req = Some (r, cs)" and "field r ''translation'' = Some (JStr t)"
  shows "\<exists>g. t = js_trim g"
proof -
  from assms(1) obtain b where
    "post_translate E P e b = (r, cs) \<or> r = get_health \<or> r = get_root"
    by (auto simp: server_js_def split: if_splits option.splits sum.splits)
  moreover have "field get_health ''translation'' = None" "field get_root ''translation'' = None"
    by (simp_all add: get_health_def get_root_def)
  ultimately have "field (fst (post_translate E P e b)) ''translation'' = Some (JStr t)"
    using assms(2) by auto
  then show ?thesis by (rule translation_server)
qed

lemma sample_requests [simp]:
  "method_of (post_request b) = str ''POST''"
  "pathname (post_request b) = str ''/translate''"
  "json (post_request b) = Inr b"
  "method_of (post_translate_request t l) = str ''POST''"
  "pathname (post_translate_request t l) = str ''/translate''"
  "json (post_translate_request t l) = Inr (translation_body t l)"
  "method_of unparseable_request = str ''POST''"
  "pathname unparseable_request = str ''/translate''"
  "json unparseable_request
     = Inl \<lparr>ctorName = str ''SyntaxError'', message = str ''Unexpected end of JSON input''\<rparr>"
  "method_of (get_request p) = str ''GET''"
  "pathname (get_request p) = p"
  by (simp_all add: post_request_def post_translate_request_def unparseable_request_def
      get_request_def)

lemma translation_body_simps [simp]:
  "text_of (translation_body t l) = Some (JStr t)"
  "targetLanguage_of (translation_body t l) = Some (JStr l)"
  "translation_body t l \<noteq> JNull"
  by (simp_all add: translation_body_def text_of_def targetLanguage_of_def)

lemma js_not_simps [simp]:
  "js_not None" "js_not (Some v) \<longleftrightarrow> \<not> truthy v"
  by (simp_all add: js_not_def)

lemma falsy_simps:
  "falsy None" "falsy (Some s) \<longleftrightarrow> s = []"
  by (simp_all add: falsy_def)

lemma sample_keys [simp]:
  "falsy (GEMINI_API_KEY no_key_env)" "\<not> falsy (GEMINI_API_KEY sample_env)"
  by (simp_all add: no_key_env_def sample_env_def falsy_def str_def)

lemma failing_provider_simps [simp]:
  "GoogleGenerativeAI (failing_provider msg) k = None"
  "getGenerativeModel (failing_provider msg) k m = None"
  "generateContent (failing_provider msg) k m p = Inl \<lparr>ctorName = str ''Error'', message = msg\<rparr>"
  by (simp_all add: failing_provider_def)

lemma sample_provider_simps [simp]:
  "GoogleGenerativeAI sample_provider k = None"
  "getGenerativeModel sample_provider k m = None"
  "generateContent sample_provider k m p =
     (if falsy k
      then Inl \<lparr>ctorName = str ''GoogleGenerativeAIFetchError'',
                message = str ''API key not valid. Please pass a valid API key.''\<rparr>
      else Inr (str '' Hola '' @ [0xA]))"
  by (simp_all add: sample_provider_def)

lemma targetLangName_es:
  "targetLangName languageNames (JStr (str ''es'')) = Some (Json (JStr (str ''Spanish'')))"
  "targetLangName languageNames_server (JStr (str ''es'')) = Some (Json (JStr (str ''Spanish'')))"
  by (simp_all add: targetLangName_def js_get_def languageNames_def languageNames_server_def)

lemma prompt_strings:
  "prompt (Json (JStr d)) (JStr t) =
     Some (str ''Translate the following text to '' @ d
           @ str ''. Only provide the translation, no explanations or additional text:''
           @ [0xA] @ t)"
  "prompt_server (Json (JStr d)) (JStr t) =
     Some (str ''Translate the following text to '' @ d
           @ str ''. Only provide the translation, no explanations or additional text:''
           @ [0xA, 0xA] @ t)"
  by (simp_all add: prompt_def prompt_server_def)

lemma fields_not_null [simp]:
  "text_of b = Some v \<Longrightarrow> b \<noteq> JNull" "targetLanguage_of b = Some v \<Longrightarrow> b \<noteq> JNull"
  by (auto simp: text_of_def targetLanguage_of_def)

lemma js_toString_targetLangName:
  "targetLangName table v = Some name \<Longrightarrow> \<exists>d. js_toString name = Some d"
  by (cases name)
    (auto simp: targetLangName_def js_get_def split: option.splits if_splits)

lemma string_prompt_exists:
  "\<exists>name p q. targetLangName table (JStr l) = Some name
     \<and> prompt name (JStr t) = Some p \<and> prompt_server name (JStr t) = Some q"
proof -
  obtain name where n: "targetLangName table (JStr l) = Some name"
    by (simp add: targetLangName_def)
  then obtain d where "js_toString name = Some d"
    using js_toString_targetLangName by blast
  with n show ?thesis by (simp add: prompt_def prompt_server_def)
qed

lemma languageNames_values: "map_of languageNames l = Some n \<Longrightarrow> n \<noteq> []"
  by (auto simp: languageNames_def split: if_splits)

lemma targetLangName_known:
  "map_of languageNames l = Some n \<Longrightarrow>
   targetLangName languageNames (JStr l) = Some (Json (JStr n))"
  using languageNames_values [of l n] by (simp add: targetLangName_def js_get_def)

lemma targetLangName_fr:
  "targetLangName languageNames (JStr (str ''fr'')) = Some (Json (JStr (str ''French'')))"
  by (simp add: targetLangName_def js_get_def languageNames_def)

lemma targetLangName_xx:
  "targetLangName languageNames (JStr (str ''xx'')) = Some (Json (JStr (str ''xx'')))"
  by (simp add: targetLangName_def js_get_def languageNames_def object_prototype_def)

lemma targetLangName_passthrough:
  "map_of table l = None \<Longrightarrow> l \<notin> set object_prototype \<Longrightarrow>
   targetLangName table (JStr l) = Some (Json (JStr l))"
  by (simp add: targetLangName_def js_get_def)

lemma targetLangName_inherited:
  "map_of table l = None \<Longrightarrow> l \<in> set object_prototype \<Longrightarrow>
   targetLangName table (JStr l) = Some (JNative l)"
  by (simp add: targetLangName_def js_get_def)

lemma length_text_exists:
  "greater1000 E (js_length v) = Some True \<Longrightarrow> \<exists>n. length_text v = Some n"
proof (cases "js_length v")
  case None
  then show ?thesis by (simp add: length_text_def)
next
  case (Some w)
  assume "greater1000 E (js_length v) = Some True"
  with Some show ?thesis
    by (cases w) (auto simp: length_text_def split: option.splits)
qed

lemma debug_too_long:
  assumes "\<not> falsy (GEMINI_API_KEY e)" and "json req = Inr b"
    and "text_of b = Some v" and "truthy v" and "\<not> js_not (targetLanguage_of b)"
    and "greater1000 E (js_length v) = Some True"
  shows "status (fst (translate_debug E P e c req)) = 400
       \<and> field (fst (translate_debug E P e c req)) ''errorCode'' = Some (JStr (str ''TEXT_TOO_LONG''))"
proof -
  obtain n where "length_text v = Some n"
    using length_text_exists [OF assms(6)] ..
  moreover obtain l where "targetLanguage_of b = Some l"
    using assms(5) by (cases "targetLanguage_of b") auto
  ultimately show ?thesis
    using assms by (simp add: translate_debug_def)
qed











section \<open>The trimmed translation\<close>

text \<open>
  Claim C9. In every successful translation response, of either worker or of the Express
  server, the \<open>translation\<close> field has no white space at its start or end, and trimming it
  again gives the same string.
\<close>

theorem translation_trimmed:
  assumes "field (fst (fetch_production E P e req)) ''translation'' = Some (JStr t)
         \<or> field (fst (fetch_debug E P e c req)) ''translation'' = Some (JStr t)
         \<or> (\<exists>r cs. server_js R E P e xreq = Some (r, cs) \<and> field r ''translation'' = Some (JStr t))"
  shows "js_trim t = t \<and> trimmed t"
proof -
  from assms have "\<exists>g. t = js_trim g"
  proof (elim disjE exE conjE)
    assume "field (fst (fetch_production E P e req)) ''translation'' = Some (JStr t)"
    then show ?thesis by (rule translation_fetch_production)
  next
    assume "field (fst (fetch_debug E P e c req)) ''translation'' = Some (JStr t)"
    then show ?thesis by (rule translation_fetch_debug)
  next
    fix r cs
    assume "server_js R E P e xreq = Some (r, cs)" and "field r ''translation'' = Some (JStr t)"
    then show ?thesis by (rule translation_server_js)
  qed
  then obtain g where "t = js_trim g" ..
  then show ?thesis by (simp add: js_trim_idem trimmed_js_trim)
qed

theorem translation_trimmed_witness:
  "field (fst (fetch_production sample_engine sample_provider sample_env
       (post_translate_request (str ''Hello'') (str ''es'')))) ''translation'' = Some (JStr (str ''Hola''))
   \<and> js_trim (str ''Hola'') = str ''Hola'' \<and> trimmed (str ''Hola'')"
proof -
  have h: "field (fst (fetch_production sample_engine sample_provider sample_env
       (post_translate_request (str ''Hello'') (str ''es'')))) ''translation'' = Some (JStr (str ''Hola''))"
    by (simp add: fetch_production_def translate_production_def js_trim_sample
        targetLangName_es prompt_strings)
  from translation_trimmed [of sample_engine sample_provider sample_env _ "str ''Hola''"
      sample_clock, OF disjI1, OF h] h
  show ?thesis by simp
qed

section \<open>Routing\<close>

text \<open>
  Claim C8, amended. In both workers, every request that is not a preflight, whose path
  is neither \<^verbatim>\<open>/\<close> nor \<^verbatim>\<open>/health\<close>, and that is not POST \<^verbatim>\<open>/translate\<close>, is answered with
  status 404 and a JSON body whose \<open>error\<close> is "Not found".
\<close>

theorem unknown_route_404:
  assumes "method_of req \<noteq> str ''OPTIONS''"
    and "pathname req \<noteq> str ''/''"
    and "pathname req \<noteq> str ''/health''"
    and "\<not> (pathname req = str ''/translate'' \<and> method_of req = str ''POST'')"
  shows "status (fst (fetch_production E P e req)) = 404
       \<and> field (fst (fetch_production E P e req)) ''error'' = Some (JStr (str ''Not found''))
       \<and> status (fst (fetch_debug E P e c req)) = 404
       \<and> field (fst (fetch_debug E P e c req)) ''error'' = Some (JStr (str ''Not found''))"
  using assms by (auto simp: fetch_production_def fetch_debug_def)

theorem unknown_route_404_witness:
  "method_of (get_request (str ''/unknown-path'')) \<noteq> str ''OPTIONS''
   \<and> pathname (get_request (str ''/unknown-path'')) \<noteq> str ''/''
   \<and> pathname (get_request (str ''/unknown-path'')) \<noteq> str ''/health''
   \<and> \<not> (pathname (get_request (str ''/unknown-path'')) = str ''/translate''
          \<and> method_of (get_request (str ''/unknown-path'')) = str ''POST'')
   \<and> status (fst (fetch_production sample_engine sample_provider sample_env
        (get_request (str ''/unknown-path'')))) = 404
   \<and> field (fst (fetch_production sample_engine sample_provider sample_env
        (get_request (str ''/unknown-path'')))) ''error'' = Some (JStr (str ''Not found''))
   \<and> status (fst (fetch_debug sample_engine sample_provider sample_env sample_clock
        (get_request (str ''/unknown-path'')))) = 404
   \<and> field (fst (fetch_debug sample_engine sample_provider sample_env sample_clock
        (get_request (str ''/unknown-path'')))) ''error'' = Some (JStr (str ''Not found''))"
proof -
  have 1: "method_of (get_request (str ''/unknown-path'')) \<noteq> str ''OPTIONS''"
    and 2: "pathname (get_request (str ''/unknown-path'')) \<noteq> str ''/''"
    and 3: "pathname (get_request (str ''/unknown-path'')) \<noteq> str ''/health''"
    and 4: "\<not> (pathname (get_request (str ''/unknown-path'')) = str ''/translate''
          \<and> method_of (get_request (str ''/unknown-path'')) = str ''POST'')"
    by simp_all
  from unknown_route_404 [OF 1 2 3 4, of sample_engine sample_provider sample_env sample_clock]
    1 2 3 4
  show ?thesis by simp
qed

text \<open>
  Claim C8 as stated speaks of every variant. server.js registers no catch-all route, so
  for GET \<^verbatim>\<open>/unknown-path\<close> none of its callbacks builds the JSON body; the answer is
  left to Express.
\<close>

theorem unknown_route_counterexample:
  "server_js express4_router sample_engine sample_provider sample_env
     (express_get (str ''/unknown-path'')) = None"
  by code_simp

text \<open>
  Claim C10. In both workers a request to \<^verbatim>\<open>/translate\<close> whose method is neither POST nor
  OPTIONS falls through to the catch-all: status 404 (not 405), error "Not found", and
  no call to the provider.
\<close>

theorem translate_wrong_method_404:
  assumes "pathname req = str ''/translate''"
    and "method_of req \<noteq> str ''POST''"
    and "method_of req \<noteq> str ''OPTIONS''"
  shows "fetch_production E P e req = (json_response 404 [(''error'', lit ''Not found'')], [])
       \<and> status (fst (fetch_production E P e req)) = 404
       \<and> status (fst (fetch_debug E P e c req)) = 404
       \<and> field (fst (fetch_debug E P e c req)) ''error'' = Some (JStr (str ''Not found''))
       \<and> snd (fetch_debug E P e c req) = []"
  using assms by (auto simp: fetch_production_def fetch_debug_def)

theorem translate_wrong_method_404_witness:
  "pathname (get_request (str ''/translate'')) = str ''/translate''
   \<and> method_of (get_request (str ''/translate'')) \<noteq> str ''POST''
   \<and> method_of (get_request (str ''/translate'')) \<noteq> str ''OPTIONS''
   \<and> status (fst (fetch_production sample_engine sample_provider sample_env
        (get_request (str ''/translate'')))) = 404
   \<and> status (fst (fetch_debug sample_engine sample_provider sample_env sample_clock
        (get_request (str ''/translate'')))) = 404"
proof -
  have 1: "pathname (get_request (str ''/translate'')) = str ''/translate''"
    and 2: "method_of (get_request (str ''/translate'')) \<noteq> str ''POST''"
    and 3: "method_of (get_request (str ''/translate'')) \<noteq> str ''OPTIONS''"
    by simp_all
  from translate_wrong_method_404 [OF 1 2 3, of sample_engine sample_provider sample_env
      sample_clock] 1 2 3
  show ?thesis by simp
qed

section \<open>Validation and the credential\<close>




text \<open>
  Claim C2, amended. In the debug worker every POST \<^verbatim>\<open>/translate\<close> arriving while no
  credential is configured (absent or empty), a valid body included, is answered with
  status 500 and errorCode API_KEY_MISSING, and no call to the provider is made.
\<close>

theorem missing_credential_debug:
  assumes "method_of req = str ''POST''" and "pathname req = str ''/translate''"
    and "falsy (GEMINI_API_KEY e)"
  shows "status (fst (fetch_debug E P e c req)) = 500
       \<and> field (fst (fetch_debug E P e c req)) ''errorCode'' = Some (JStr (str ''API_KEY_MISSING''))
       \<and> snd (fetch_debug E P e c req) = []"
  using assms by (simp add: fetch_debug_def translate_debug_def)

theorem missing_credential_debug_witness:
  "falsy (GEMINI_API_KEY no_key_env)
   \<and> status (fst (fetch_debug sample_engine sample_provider no_key_env sample_clock
         (post_translate_request (str ''Hello'') (str ''es'')))) = 500
   \<and> field (fst (fetch_debug sample_engine sample_provider no_key_env sample_clock
         (post_translate_request (str ''Hello'') (str ''es'')))) ''errorCode''
       = Some (JStr (str ''API_KEY_MISSING''))
   \<and> snd (fetch_debug sample_engine sample_provider no_key_env sample_clock
         (post_translate_request (str ''Hello'') (str ''es''))) = []"
  using missing_credential_debug [where req = "post_translate_request (str ''Hello'') (str ''es'')"
      and e = no_key_env and P = sample_provider and c = sample_clock and E = sample_engine]
  by simp

text \<open>
  Claim C2 as stated covers the production worker too, which has no such check: with a
  valid body and no credential it builds the client from the absent key, submits the
  prompt, and relays the provider's failure without any \<open>errorCode\<close>.
\<close>

theorem missing_credential_counterexample:
  "snd (fetch_production sample_engine sample_provider no_key_env
          (post_translate_request (str ''Hello'') (str ''es'')))
     = [(str ''gemini-2.0-flash-exp'',
         str ''Translate the following text to Spanish. Only provide the translation, no explanations or additional text:''
         @ [0xA] @ str ''Hello'')]
   \<and> field (fst (fetch_production sample_engine sample_provider no_key_env
          (post_translate_request (str ''Hello'') (str ''es'')))) ''errorCode'' = None
   \<and> field (fst (fetch_production sample_engine sample_provider no_key_env
          (post_translate_request (str ''Hello'') (str ''es'')))) ''details''
       = Some (JStr (str ''API key not valid. Please pass a valid API key.''))"
  by (simp add: fetch_production_def translate_production_def targetLangName_es
      caught_production_def prompt_strings model_production_def str_append)

text \<open>
  Claim C6, amended. For a POST \<^verbatim>\<open>/translate\<close> with both fields truthy, whatever the
  value of \<open>targetLanguage\<close>, and \<^verbatim>\<open>text.length > 1000\<close>: the production worker and the
  Express callback answer with status 400; the debug worker, once a credential is
  configured, answers with status 400 and errorCode TEXT_TOO_LONG, and for a text that
  is a string with details that spell out the observed length. A string of exactly
  1000 code units is not rejected as too long by any of the three.
\<close>

theorem text_too_long:
  assumes "method_of req = str ''POST''" and "pathname req = str ''/translate''"
    and "json req = Inr b"
    and "text_of b = Some v" and "truthy v"
    and "targetLanguage_of b = Some l" and "truthy l"
  shows "(greater1000 E (js_length v) = Some True \<longrightarrow>
            status (fst (fetch_production E P e req)) = 400
          \<and> status (fst (post_translate E P e (Some b))) = 400
          \<and> (\<not> falsy (GEMINI_API_KEY e) \<longrightarrow>
                status (fst (fetch_debug E P e c req)) = 400
              \<and> field (fst (fetch_debug E P e c req)) ''errorCode''
                  = Some (JStr (str ''TEXT_TOO_LONG''))))
       \<and> (\<forall>t. v = JStr t \<longrightarrow>
            (length t > 1000 \<longrightarrow>
               status (fst (fetch_production E P e req)) = 400
             \<and> status (fst (post_translate E P e (Some b))) = 400
             \<and> (\<not> falsy (GEMINI_API_KEY e) \<longrightarrow>
                   status (fst (fetch_debug E P e c req)) = 400
                 \<and> field (fst (fetch_debug E P e c req)) ''errorCode''
                     = Some (JStr (str ''TEXT_TOO_LONG''))
                 \<and> field (fst (fetch_debug E P e c req)) ''details'' =
                     Some (JStr (str ''Text length: '' @ decimal (length t)
                                 @ str '', Max: 1000 characters''))
                 \<and> js_includes (str ''Text length: '' @ decimal (length t)
                                 @ str '', Max: 1000 characters'') (decimal (length t))))
          \<and> (length t = 1000 \<longrightarrow>
               field (fst (fetch_production E P e req)) ''error''
                 \<noteq> Some (JStr (str ''Text too long (max 1000 characters)''))
             \<and> field (fst (post_translate E P e (Some b))) ''error''
                 \<noteq> Some (JStr (str ''Text too long (max 1000 characters)''))
             \<and> field (fst (fetch_debug E P e c req)) ''errorCode''
                 \<noteq> Some (JStr (str ''TEXT_TOO_LONG''))))"
proof -
  have g1: "greater1000 E (js_length v) = Some True \<Longrightarrow>
            status (fst (fetch_production E P e req)) = 400
          \<and> status (fst (post_translate E P e (Some b))) = 400"
    using assms
    by (simp add: fetch_production_def translate_production_def post_translate_def)
  have g2: "greater1000 E (js_length v) = Some True \<Longrightarrow> \<not> falsy (GEMINI_API_KEY e) \<Longrightarrow>
            status (fst (fetch_debug E P e c req)) = 400
          \<and> field (fst (fetch_debug E P e c req)) ''errorCode'' = Some (JStr (str ''TEXT_TOO_LONG''))"
    using assms debug_too_long [of e req b v E P c] by (simp add: fetch_debug_def)
  have c: "v = JStr t \<Longrightarrow> length t > 1000 \<Longrightarrow> \<not> falsy (GEMINI_API_KEY e) \<Longrightarrow>
             field (fst (fetch_debug E P e c req)) ''details'' =
               Some (JStr (str ''Text length: '' @ decimal (length t)
                           @ str '', Max: 1000 characters''))
           \<and> js_includes (str ''Text length: '' @ decimal (length t)
                           @ str '', Max: 1000 characters'') (decimal (length t))" for t
    using assms
    by (simp add: fetch_debug_def translate_debug_def js_includes_append)
  have d: "v = JStr t \<Longrightarrow> length t = 1000 \<Longrightarrow> field (fst (fetch_production E P e req)) ''error''
              \<noteq> Some (JStr (str ''Text too long (max 1000 characters)''))" for t
    using assms
    by (auto simp: fetch_production_def translate_production_def caught_production_def
        split: option.splits sum.splits)
  have e: "v = JStr t \<Longrightarrow> length t = 1000 \<Longrightarrow>
        field (fst (post_translate E P e (Some b))) ''error''
              \<noteq> Some (JStr (str ''Text too long (max 1000 characters)''))" for t
    using assms
    by (auto simp: post_translate_def caught_server_def
        split: option.splits sum.splits)
  have f: "v = JStr t \<Longrightarrow> length t = 1000 \<Longrightarrow>
        field (fst (fetch_debug E P e c req)) ''errorCode'' \<noteq> Some (JStr (str ''TEXT_TOO_LONG''))"
    for t
    using assms
    by (auto simp: fetch_debug_def translate_debug_def caught_debug_def
        initError_debug_def geminiError_debug_def split: option.splits sum.splits)
  have s: "v = JStr t \<Longrightarrow> length t > 1000 \<Longrightarrow> greater1000 E (js_length v) = Some True" for t
    by simp
  show ?thesis
    using g1 g2 c d e f s by blast
qed

theorem text_too_long_witness:
  "length (replicate 1001 (0x61 :: 16 word)) > 1000
   \<and> status (fst (fetch_production sample_engine sample_provider sample_env
        (post_translate_request (replicate 1001 0x61) (str ''xx'')))) = 400
   \<and> status (fst (fetch_debug sample_engine sample_provider sample_env sample_clock
        (post_translate_request (replicate 1001 0x61) (str ''xx'')))) = 400
   \<and> field (fst (fetch_debug sample_engine sample_provider sample_env sample_clock
        (post_translate_request (replicate 1001 0x61) (str ''xx'')))) ''details''
        = Some (JStr (str ''Text length: 1001, Max: 1000 characters''))
   \<and> length (replicate 1000 (0x61 :: 16 word)) = 1000
   \<and> field (fst (fetch_debug sample_engine sample_provider sample_env sample_clock
        (post_translate_request (replicate 1000 0x61) (str ''xx'')))) ''errorCode''
        \<noteq> Some (JStr (str ''TEXT_TOO_LONG''))"
proof -
  have d: "decimal 1001 = str ''1001''" by code_simp
  have ne: "truthy (JStr (str ''xx''))" by simp
  note a = text_too_long [where req = "post_translate_request (replicate 1001 0x61) (str ''xx'')"
      and v = "JStr (replicate 1001 0x61)" and l = "JStr (str ''xx'')" and P = sample_provider
      and e = sample_env and c = sample_clock and E = sample_engine
      and b = "translation_body (replicate 1001 0x61) (str ''xx'')"]
  note b = text_too_long [where req = "post_translate_request (replicate 1000 0x61) (str ''xx'')"
      and v = "JStr (replicate 1000 0x61)" and l = "JStr (str ''xx'')" and P = sample_provider
      and e = sample_env and c = sample_clock and E = sample_engine
      and b = "translation_body (replicate 1000 0x61) (str ''xx'')"]
  have 1: "status (fst (fetch_production sample_engine sample_provider sample_env
        (post_translate_request (replicate 1001 0x61) (str ''xx'')))) = 400
   \<and> status (fst (fetch_debug sample_engine sample_provider sample_env sample_clock
        (post_translate_request (replicate 1001 0x61) (str ''xx'')))) = 400
   \<and> field (fst (fetch_debug sample_engine sample_provider sample_env sample_clock
        (post_translate_request (replicate 1001 0x61) (str ''xx'')))) ''details''
        = Some (JStr (str ''Text length: '' @ decimal 1001 @ str '', Max: 1000 characters''))"
    using a ne by simp
  have 2: "field (fst (fetch_debug sample_engine sample_provider sample_env sample_clock
        (post_translate_request (replicate 1000 0x61) (str ''xx'')))) ''errorCode''
        \<noteq> Some (JStr (str ''TEXT_TOO_LONG''))"
    using b ne by simp
  from 1 2 show ?thesis by (simp add: d str_append)
qed

text \<open>
  Claim C6 as stated leaves the credential out: with no credential configured the debug
  worker answers a text of 1001 code units with API_KEY_MISSING (500).
\<close>

theorem text_too_long_counterexample:
  "length (replicate 1001 (0x61 :: 16 word)) > 1000
   \<and> status (fst (fetch_debug sample_engine sample_provider no_key_env sample_clock
        (post_translate_request (replicate 1001 0x61) (str ''es'')))) = 500
   \<and> field (fst (fetch_debug sample_engine sample_provider no_key_env sample_clock
        (post_translate_request (replicate 1001 0x61) (str ''es'')))) ''errorCode''
        = Some (JStr (str ''API_KEY_MISSING''))"
  by (simp add: fetch_debug_def translate_debug_def)

section \<open>Provider failures\<close>

text \<open>
  Claim C3, amended. When a POST \<^verbatim>\<open>/translate\<close> reaches \<^verbatim>\<open>generateContent\<close> in the debug
  worker and the call throws, the message is classified in this order: if it includes
  "quota" or "rate" the response is QUOTA_EXCEEDED with status 429; otherwise, if it
  includes "API key", INVALID_API_KEY with status 500 and the message as details;
  otherwise UNKNOWN_ERROR with status 500 and the message as details.
\<close>

theorem provider_failure_debug:
  assumes "method_of req = str ''POST''" and "pathname req = str ''/translate''"
    and "\<not> falsy (GEMINI_API_KEY e)"
    and "json req = Inr b"
    and "text_of b = Some (JStr t)" and "targetLanguage_of b = Some lang"
    and "t \<noteq> []" and "truthy lang" and "length t \<le> 1000"
    and "GoogleGenerativeAI P (GEMINI_API_KEY e) = None"
    and "getGenerativeModel P (GEMINI_API_KEY e) (str ''gemini-2.5-flash'') = None"
    and "targetLangName languageNames lang = Some name"
    and "prompt name (JStr t) = Some p"
    and "generateContent P (GEMINI_API_KEY e) (str ''gemini-2.5-flash'') p = Inl err"
  shows "(js_includes (message err) (str ''quota'') \<or> js_includes (message err) (str ''rate'') \<longrightarrow>
            status (fst (fetch_debug E P e c req)) = 429
          \<and> field (fst (fetch_debug E P e c req)) ''errorCode'' = Some (JStr (str ''QUOTA_EXCEEDED'')))
       \<and> (\<not> js_includes (message err) (str ''quota'') \<and> \<not> js_includes (message err) (str ''rate'')
          \<and> js_includes (message err) (str ''API key'') \<longrightarrow>
            status (fst (fetch_debug E P e c req)) = 500
          \<and> field (fst (fetch_debug E P e c req)) ''errorCode'' = Some (JStr (str ''INVALID_API_KEY''))
          \<and> field (fst (fetch_debug E P e c req)) ''details'' = Some (JStr (message err)))
       \<and> (\<not> js_includes (message err) (str ''quota'') \<and> \<not> js_includes (message err) (str ''rate'')
          \<and> \<not> js_includes (message err) (str ''API key'') \<longrightarrow>
            status (fst (fetch_debug E P e c req)) = 500
          \<and> field (fst (fetch_debug E P e c req)) ''errorCode'' = Some (JStr (str ''UNKNOWN_ERROR''))
          \<and> field (fst (fetch_debug E P e c req)) ''details'' = Some (JStr (message err)))"
  using assms
  by (auto simp: fetch_debug_def translate_debug_def model_debug_def
      geminiError_debug_def caught_debug_def)

theorem provider_failure_debug_witness:
  "(status (fst (fetch_debug sample_engine (failing_provider (str ''Resource exhausted: quota exceeded''))
        sample_env sample_clock (post_translate_request (str ''Hello'') (str ''es'')))) = 429
    \<and> field (fst (fetch_debug sample_engine (failing_provider (str ''Resource exhausted: quota exceeded''))
        sample_env sample_clock (post_translate_request (str ''Hello'') (str ''es''))))
        ''errorCode'' = Some (JStr (str ''QUOTA_EXCEEDED'')))
   \<and> (status (fst (fetch_debug sample_engine (failing_provider (str ''API key not valid''))
        sample_env sample_clock (post_translate_request (str ''Hello'') (str ''es'')))) = 500
    \<and> field (fst (fetch_debug sample_engine (failing_provider (str ''API key not valid''))
        sample_env sample_clock (post_translate_request (str ''Hello'') (str ''es''))))
        ''errorCode'' = Some (JStr (str ''INVALID_API_KEY'')))
   \<and> (status (fst (fetch_debug sample_engine (failing_provider (str ''socket hang up''))
        sample_env sample_clock (post_translate_request (str ''Hello'') (str ''es'')))) = 500
    \<and> field (fst (fetch_debug sample_engine (failing_provider (str ''socket hang up''))
        sample_env sample_clock (post_translate_request (str ''Hello'') (str ''es''))))
        ''errorCode'' = Some (JStr (str ''UNKNOWN_ERROR''))
    \<and> field (fst (fetch_debug sample_engine (failing_provider (str ''socket hang up''))
        sample_env sample_clock (post_translate_request (str ''Hello'') (str ''es''))))
        ''details'' = Some (JStr (str ''socket hang up'')))"
proof -
  have q: "js_includes (str ''Resource exhausted: quota exceeded'') (str ''quota'')"
    by simp
  have k: "\<not> js_includes (str ''API key not valid'') (str ''quota'')"
    "\<not> js_includes (str ''API key not valid'') (str ''rate'')"
    "js_includes (str ''API key not valid'') (str ''API key'')"
    by simp_all
  have u: "\<not> js_includes (str ''socket hang up'') (str ''quota'')"
    "\<not> js_includes (str ''socket hang up'') (str ''rate'')"
    "\<not> js_includes (str ''socket hang up'') (str ''API key'')"
    by simp_all
  have len: "length (str ''Hello'') \<le> 1000" by simp
  note th = provider_failure_debug [where req = "post_translate_request (str ''Hello'') (str ''es'')"
      and e = sample_env and c = sample_clock and t = "str ''Hello''"
      and lang = "JStr (str ''es'')"
      and b = "translation_body (str ''Hello'') (str ''es'')" and E = sample_engine
      and name = "Json (JStr (str ''Spanish''))"
      and p = "str ''Translate the following text to '' @ str ''Spanish''
           @ str ''. Only provide the translation, no explanations or additional text:''
           @ [0xA] @ str ''Hello''"]
  have 1: "status (fst (fetch_debug sample_engine (failing_provider (str ''Resource exhausted: quota exceeded''))
        sample_env sample_clock (post_translate_request (str ''Hello'') (str ''es'')))) = 429
    \<and> field (fst (fetch_debug sample_engine (failing_provider (str ''Resource exhausted: quota exceeded''))
        sample_env sample_clock (post_translate_request (str ''Hello'') (str ''es''))))
        ''errorCode'' = Some (JStr (str ''QUOTA_EXCEEDED''))"
    using th [where P = "failing_provider (str ''Resource exhausted: quota exceeded'')"
        and err = "\<lparr>ctorName = str ''Error'', message = str ''Resource exhausted: quota exceeded''\<rparr>"]
      q len by (simp add: targetLangName_es prompt_strings)
  have 2: "status (fst (fetch_debug sample_engine (failing_provider (str ''API key not valid''))
        sample_env sample_clock (post_translate_request (str ''Hello'') (str ''es'')))) = 500
    \<and> field (fst (fetch_debug sample_engine (failing_provider (str ''API key not valid''))
        sample_env sample_clock (post_translate_request (str ''Hello'') (str ''es''))))
        ''errorCode'' = Some (JStr (str ''INVALID_API_KEY''))"
    using th [where P = "failing_provider (str ''API key not valid'')"
        and err = "\<lparr>ctorName = str ''Error'', message = str ''API key not valid''\<rparr>"]
      k len by (simp add: targetLangName_es prompt_strings)
  have 3: "status (fst (fetch_debug sample_engine (failing_provider (str ''socket hang up''))
        sample_env sample_clock (post_translate_request (str ''Hello'') (str ''es'')))) = 500
    \<and> field (fst (fetch_debug sample_engine (failing_provider (str ''socket hang up''))
        sample_env sample_clock (post_translate_request (str ''Hello'') (str ''es''))))
        ''errorCode'' = Some (JStr (str ''UNKNOWN_ERROR''))
    \<and> field (fst (fetch_debug sample_engine (failing_provider (str ''socket hang up''))
        sample_env sample_clock (post_translate_request (str ''Hello'') (str ''es''))))
        ''details'' = Some (JStr (str ''socket hang up''))"
    using th [where P = "failing_provider (str ''socket hang up'')"
        and err = "\<lparr>ctorName = str ''Error'', message = str ''socket hang up''\<rparr>"]
      u len by (simp add: targetLangName_es prompt_strings)
  from 1 2 3 show ?thesis by blast
qed

text \<open>
  Claim C3 as stated fails twice. The production worker does not classify: a quota
  failure is answered with status 500 and no \<open>errorCode\<close>. And in the debug worker the
  quota test wins over the credential test: a message that names the API key and also
  contains "rate" (inside the word generateContent) is answered QUOTA_EXCEEDED (429).
\<close>

theorem provider_failure_counterexample:
  "status (fst (fetch_production sample_engine
        (failing_provider (str ''Resource exhausted: quota exceeded''))
        sample_env (post_translate_request (str ''Hello'') (str ''es'')))) = 500
   \<and> field (fst (fetch_production sample_engine
        (failing_provider (str ''Resource exhausted: quota exceeded''))
        sample_env (post_translate_request (str ''Hello'') (str ''es'')))) ''errorCode'' = None
   \<and> js_includes
        (str ''Error fetching from models/gemini-2.5-flash:generateContent: [400 Bad Request] API key not valid.'')
        (str ''API key'')
   \<and> status (fst (fetch_debug sample_engine (failing_provider
        (str ''Error fetching from models/gemini-2.5-flash:generateContent: [400 Bad Request] API key not valid.''))
        sample_env sample_clock (post_translate_request (str ''Hello'') (str ''es'')))) = 429
   \<and> field (fst (fetch_debug sample_engine (failing_provider
        (str ''Error fetching from models/gemini-2.5-flash:generateContent: [400 Bad Request] API key not valid.''))
        sample_env sample_clock (post_translate_request (str ''Hello'') (str ''es''))))
        ''errorCode'' = Some (JStr (str ''QUOTA_EXCEEDED''))"
  by (simp add: fetch_production_def translate_production_def fetch_debug_def translate_debug_def
      caught_production_def geminiError_debug_def targetLangName_es prompt_strings)

section \<open>The prompt\<close>




section \<open>Language resolution\<close>

text \<open>
  Claim C7. The claim: a known code resolves to its table entry, and every
  \<open>targetLanguage\<close> absent from the table resolves to itself. The lemmas
  \<open>targetLangName_known\<close>, \<open>targetLangName_fr\<close>, \<open>targetLangName_xx\<close> and
  \<open>targetLangName_passthrough\<close> above give that for every name that is not inherited from
  \<^verbatim>\<open>Object.prototype\<close>. For an inherited name the lookup \<^verbatim>\<open>languageNames[targetLanguage]\<close>
  succeeds although the table has no such key: "constructor" resolves to the built-in
  function, the prompt names its source text as the language, and the response carries
  no \<open>targetLanguage\<close>.
\<close>

theorem inherited_name_resolved:
  "map_of languageNames (str ''constructor'') = None
   \<and> targetLangName languageNames (JStr (str ''constructor'')) = Some (JNative (str ''constructor''))
   \<and> targetLangName languageNames (JStr (str ''constructor''))
       \<noteq> Some (Json (JStr (str ''constructor'')))
   \<and> field (fst (fetch_production sample_engine sample_provider sample_env
         (post_translate_request (str ''Hello'') (str ''constructor'')))) ''targetLanguage'' = None
   \<and> snd (fetch_production sample_engine sample_provider sample_env
         (post_translate_request (str ''Hello'') (str ''constructor''))) =
       [(str ''gemini-2.0-flash-exp'',
         str ''Translate the following text to function Object() { [native code] }. Only provide the translation, no explanations or additional text:''
         @ [0xA] @ str ''Hello'')]"
proof -
  have m: "map_of languageNames (str ''constructor'') = None"
    by (simp add: languageNames_def)
  have p: "str ''constructor'' \<in> set object_prototype"
    by (simp add: object_prototype_def)
  have n: "targetLangName languageNames (JStr (str ''constructor'')) = Some (JNative (str ''constructor''))"
    using m p by (rule targetLangName_inherited)
  have f: "field (fst (fetch_production sample_engine sample_provider sample_env
         (post_translate_request (str ''Hello'') (str ''constructor'')))) ''targetLanguage'' = None"
    by (simp add: fetch_production_def translate_production_def n prompt_def)
  have c: "snd (fetch_production sample_engine sample_provider sample_env
         (post_translate_request (str ''Hello'') (str ''constructor''))) =
       [(str ''gemini-2.0-flash-exp'',
         str ''Translate the following text to function Object() { [native code] }. Only provide the translation, no explanations or additional text:''
         @ [0xA] @ str ''Hello'')]"
    by (simp add: fetch_production_def translate_production_def n
        prompt_def model_production_def str_append)
  from m n f c show ?thesis by simp
qed

section \<open>The three variants compared\<close>




end
